theory Spec2Isabelle
  imports Complex_Main
begin

section \<open>Vocalysis: the audio feature-scoring pipeline of \<^verbatim>\<open>vocalysis_analyzer.py\<close>\<close>

text \<open>
  The development embeds the pure part of the analyzer: the normalizer, the three
  measurement extractors, the score composer and the orchestrator
  \<^verbatim>\<open>run_full_analysis\<close>. The audio decoder (pydub, librosa.load), the speech-to-text
  model (whisper) and the spectral primitives of librosa are not part of the repository;
  they are parameters of the model, each a function that either raises or returns.

  Numbers. A Python or numpy float is modelled as a real number or NaN, and arithmetic
  on numbers is exact. NaN is kept because numpy's reductions over an empty array
  return it instead of raising, and because it is a float any function may be handed.
  Rounding, infinities and overflow are not modelled: the model follows the source only
  while every intermediate result stays inside the range of a double. That holds at
  every call the pipeline makes (the bounds of the normalizer are the literals 0, 5,
  0.1, 10, 50, 250, 2 and 6, and its value is clamped before any arithmetic). It does
  not hold for a direct call with huge bounds: in Python
  \<^verbatim>\<open>normalize_score(2.0**1023, -2.0**1023, 2.0**1023)\<close> overflows twice and
  returns \<^verbatim>\<open>inf / inf * 10\<close>, which is nan.
\<close>

subsection \<open>Exceptions and floats\<close>

text \<open>
  Instances of Python's \<^verbatim>\<open>Exception\<close> class, each with the text \<^verbatim>\<open>str(e)\<close> gives.
  \<open>LibraryError\<close> stands for whatever an external capability raises.
\<close>

datatype exn =
    ZeroDivisionError string
  | ValueError string
  | TypeError string
  | KeyError string
  | LibraryError string

fun str_exn :: "exn \<Rightarrow> string" where
  "str_exn (ZeroDivisionError m) = m"
| "str_exn (ValueError m) = m"
| "str_exn (TypeError m) = m"
| "str_exn (KeyError m) = m"
| "str_exn (LibraryError m) = m"

datatype pyfloat = Num real | NaN

text \<open>Comparisons with NaN are false; arithmetic with NaN is NaN.\<close>

fun py_lt :: "pyfloat \<Rightarrow> pyfloat \<Rightarrow> bool" where
  "py_lt (Num a) (Num b) = (a < b)"
| "py_lt _ _ = False"

fun py_add :: "pyfloat \<Rightarrow> pyfloat \<Rightarrow> pyfloat" where
  "py_add (Num a) (Num b) = Num (a + b)"
| "py_add _ _ = NaN"

fun py_sub :: "pyfloat \<Rightarrow> pyfloat \<Rightarrow> pyfloat" where
  "py_sub (Num a) (Num b) = Num (a - b)"
| "py_sub _ _ = NaN"

fun py_mul :: "pyfloat \<Rightarrow> pyfloat \<Rightarrow> pyfloat" where
  "py_mul (Num a) (Num b) = Num (a * b)"
| "py_mul _ _ = NaN"

text \<open>
  True division of Python numbers: a zero divisor raises, whatever the dividend. (When
  the dividend is a numpy scalar, numpy warns and returns nan or inf instead.) No
  division of the pipeline has a zero divisor: the normalizer divides by the difference
  of two distinct literals, the filler ratio by \<^verbatim>\<open>len(words) / 100.0\<close> with at
  least one word, the speech rate by a duration checked to be non-zero, and the means
  by 2. So the branch matters only for a direct call of the normalizer with equal
  bounds, where the model takes the dividend to be a Python number.
\<close>

fun py_div :: "pyfloat \<Rightarrow> pyfloat \<Rightarrow> exn + pyfloat" where
  "py_div a (Num b) =
     (if b = 0 then Inl (ZeroDivisionError ''float division by zero'')
      else (case a of Num x \<Rightarrow> Inr (Num (x / b)) | NaN \<Rightarrow> Inr NaN))"
| "py_div a NaN = Inr NaN"

text \<open>
  The builtins \<^verbatim>\<open>min(a, b)\<close> and \<^verbatim>\<open>max(a, b)\<close>: the first argument is kept
  unless the second compares strictly below (above) it.
\<close>

definition py_min :: "pyfloat \<Rightarrow> pyfloat \<Rightarrow> pyfloat" where
  "py_min a b = (if py_lt b a then b else a)"

definition py_max :: "pyfloat \<Rightarrow> pyfloat \<Rightarrow> pyfloat" where
  "py_max a b = (if py_lt a b then b else a)"

subsection \<open>The normalizer\<close>

text \<open>
  \<^verbatim>\<open>
  def normalize_score(value, min_val, max_val, reverse=False):
      value = max(min(value, max_val), min_val)
      normalized = (value - min_val) / (max_val - min_val)
      if reverse:
          return (1 - normalized) * 10
      return normalized * 10
  \<close>
  The bounds are numbers (every call site passes literals); the value may be NaN.
\<close>

definition normalize_score :: "pyfloat \<Rightarrow> real \<Rightarrow> real \<Rightarrow> bool \<Rightarrow> exn + pyfloat" where
  "normalize_score value min_val max_val reverse =
     (let value' = py_max (py_min value (Num max_val)) (Num min_val) in
      case py_div (py_sub value' (Num min_val)) (Num (max_val - min_val)) of
        Inl e \<Rightarrow> Inl e
      | Inr normalized \<Rightarrow>
          if reverse then Inr (py_mul (py_sub (Num 1) normalized) (Num 10))
          else Inr (py_mul normalized (Num 10)))"

subsection \<open>The numpy reductions the extractors use\<close>

text \<open>
  Arrays are lists of reals. \<^verbatim>\<open>np.mean\<close> and \<^verbatim>\<open>np.std\<close> of an empty array
  return NaN (with a warning, not an exception); \<^verbatim>\<open>np.max\<close>, \<^verbatim>\<open>np.ptp\<close>
  and \<^verbatim>\<open>argmax\<close> of an empty array raise ValueError.
\<close>

type_synonym ndarray = "real list"

definition np_abs :: "ndarray \<Rightarrow> ndarray" where
  "np_abs xs = map abs xs"

fun np_diff :: "ndarray \<Rightarrow> ndarray" where
  "np_diff (x # y # zs) = (y - x) # np_diff (y # zs)"
| "np_diff _ = []"

definition np_mean :: "ndarray \<Rightarrow> pyfloat" where
  "np_mean xs = (if xs = [] then NaN else Num (sum_list xs / real (length xs)))"

definition np_std :: "ndarray \<Rightarrow> pyfloat" where
  "np_std xs =
     (if xs = [] then NaN
      else let m = sum_list xs / real (length xs)
           in Num (sqrt (sum_list (map (\<lambda>x. (x - m)\<^sup>2) xs) / real (length xs))))"

fun np_max :: "ndarray \<Rightarrow> exn + real" where
  "np_max [] =
     Inl (ValueError ''zero-size array to reduction operation maximum which has no identity'')"
| "np_max (x # xs) = Inr (fold max xs x)"

fun np_ptp :: "ndarray \<Rightarrow> exn + real" where
  "np_ptp [] =
     Inl (ValueError ''zero-size array to reduction operation maximum which has no identity'')"
| "np_ptp (x # xs) = Inr (fold max xs x - fold min xs x)"

text \<open>\<^verbatim>\<open>argmax\<close>: the index of the first occurrence of the maximum.\<close>

fun argmax_from :: "nat \<Rightarrow> real \<Rightarrow> nat \<Rightarrow> ndarray \<Rightarrow> nat" where
  "argmax_from best_i best i [] = best_i"
| "argmax_from best_i best i (x # xs) =
     (if best < x then argmax_from i x (Suc i) xs else argmax_from best_i best (Suc i) xs)"

fun argmax :: "ndarray \<Rightarrow> exn + nat" where
  "argmax [] = Inl (ValueError ''attempt to get argmax of an empty sequence'')"
| "argmax (x # xs) = Inr (argmax_from 0 x 1 xs)"

subsection \<open>Text: \<^verbatim>\<open>str.lower\<close> and \<^verbatim>\<open>str.split\<close>\<close>

text \<open>
  A character is a code point below 256. In that range Python's \<^verbatim>\<open>str.isspace\<close>
  holds of U+0009..U+000D, U+001C..U+0020, U+0085 and U+00A0, and \<^verbatim>\<open>str.lower\<close>
  moves A..Z and the upper-case letters U+00C0..U+00DE (U+00D7, the multiplication
  sign, is not a letter) 32 code points up.
\<close>

definition isspace :: "char \<Rightarrow> bool" where
  "isspace c = (of_char c \<in> set [9, 10, 11, 12, 13, 28, 29, 30, 31, 32, 133, 160 :: nat])"

definition lower_char :: "char \<Rightarrow> char" where
  "lower_char c =
     (let n = (of_char c :: nat) in
      if (65 \<le> n \<and> n \<le> 90) \<or> (192 \<le> n \<and> n \<le> 222 \<and> n \<noteq> 215) then char_of (n + 32)
      else c)"

definition str_lower :: "string \<Rightarrow> string" where
  "str_lower s = map lower_char s"

text \<open>
  \<^verbatim>\<open>s.split()\<close> with no separator: runs of whitespace separate the words, and no
  empty word is produced. \<open>cur\<close> is the word being read.
\<close>

fun split_from :: "string \<Rightarrow> string \<Rightarrow> string list" where
  "split_from cur [] = (if cur = [] then [] else [cur])"
| "split_from cur (c # cs) =
     (if isspace c then (if cur = [] then split_from [] cs else cur # split_from [] cs)
      else split_from (cur @ [c]) cs)"

definition str_split :: "string \<Rightarrow> string list" where
  "str_split s = split_from [] s"

subsection \<open>The external capabilities\<close>

text \<open>
  A waveform is the array of samples \<^verbatim>\<open>librosa.load\<close> returns. A pitch track is what
  \<^verbatim>\<open>librosa.piptrack\<close> returns, the two arrays \<^verbatim>\<open>pitches\<close> and
  \<^verbatim>\<open>magnitudes\<close> of one shape: here a list of frames (the second axis), each frame
  the list over the frequency bins (the first axis) of the pair
  \<^verbatim>\<open>(pitches[i, t], magnitudes[i, t])\<close>.
\<close>

type_synonym waveform = "real list"
type_synonym pitch_track = "(real \<times> real) list list"

text \<open>
  \<^item> \<open>load_audio\<close>: the whole \<^verbatim>\<open>try\<close> block of \<^verbatim>\<open>run_full_analysis\<close>
    (\<^verbatim>\<open>AudioSegment.from_file\<close>, mono, 16 kHz, export to WAV, \<^verbatim>\<open>librosa.load\<close>);
  \<^item> \<open>transcribe\<close>: \<^verbatim>\<open>whisper_model.transcribe(y)["text"]\<close>;
  \<^item> \<open>piptrack\<close>: \<^verbatim>\<open>librosa.piptrack(y=y, sr=sr)\<close>;
  \<^item> \<open>rms\<close>: \<^verbatim>\<open>librosa.feature.rms(y=y)[0]\<close>;
  \<^item> \<open>onset_detect\<close>: \<^verbatim>\<open>librosa.onset.onset_detect(y=y, sr=sr)\<close>;
  \<^item> \<open>get_duration\<close>: \<^verbatim>\<open>librosa.get_duration(y=y, sr=sr)\<close>.
\<close>

record capabilities =
  load_audio :: "string \<Rightarrow> exn + waveform"
  transcribe :: "waveform \<Rightarrow> exn + string"
  piptrack :: "waveform \<Rightarrow> nat \<Rightarrow> exn + pitch_track"
  rms :: "waveform \<Rightarrow> exn + ndarray"
  onset_detect :: "waveform \<Rightarrow> nat \<Rightarrow> exn + nat list"
  get_duration :: "waveform \<Rightarrow> nat \<Rightarrow> exn + real"

subsection \<open>The clarity extractor\<close>

text \<open>
  \<^verbatim>\<open>
  pitch_values = [pitches[magnitudes[:, t].argmax(), t] for t in range(pitches.shape[1])
                  if pitches[magnitudes[:, t].argmax(), t] > 0]
  \<close>
\<close>

fun pitch_values :: "pitch_track \<Rightarrow> exn + ndarray" where
  "pitch_values [] = Inr []"
| "pitch_values (frame # frames) =
     (case argmax (map snd frame) of
        Inl e \<Rightarrow> Inl e
      | Inr i \<Rightarrow>
          (case pitch_values frames of
             Inl e \<Rightarrow> Inl e
           | Inr ps \<Rightarrow> Inr (if fst (frame ! i) > 0 then fst (frame ! i) # ps else ps)))"

text \<open>
  The body of the \<^verbatim>\<open>try\<close> block:
  \<^verbatim>\<open>
  pitches, magnitudes = librosa.piptrack(y=y, sr=sr)
  pitch_values = [...]
  if len(pitch_values) < 2: return 0.0
  jitter = np.mean(np.abs(np.diff(pitch_values)))
  shimmer = np.mean(np.abs(np.diff(librosa.feature.rms(y=y)[0])))
  clarity_score = (normalize_score(jitter, 0, 5, reverse=True)
                   + normalize_score(shimmer, 0, 0.1, reverse=True)) / 2
  return clarity_score
  \<close>
\<close>

definition analyze_clarity_try :: "capabilities \<Rightarrow> waveform \<Rightarrow> nat \<Rightarrow> exn + pyfloat" where
  "analyze_clarity_try env y sr =
     (case piptrack env y sr of
        Inl e \<Rightarrow> Inl e
      | Inr track \<Rightarrow>
     (case pitch_values track of
        Inl e \<Rightarrow> Inl e
      | Inr pitch_vals \<Rightarrow>
          if length pitch_vals < 2 then Inr (Num 0)
          else
            let jitter = np_mean (np_abs (np_diff pitch_vals)) in
            (case rms env y of
               Inl e \<Rightarrow> Inl e
             | Inr envelope \<Rightarrow>
                 let shimmer = np_mean (np_abs (np_diff envelope)) in
                 (case normalize_score jitter 0 5 True of
                    Inl e \<Rightarrow> Inl e
                  | Inr a \<Rightarrow>
                 (case normalize_score shimmer 0 (1 / 10) True of
                    Inl e \<Rightarrow> Inl e
                  | Inr b \<Rightarrow> py_div (py_add a b) (Num 2))))))"

text \<open>\<^verbatim>\<open>except Exception: return 0.0\<close>\<close>

definition analyze_clarity :: "capabilities \<Rightarrow> waveform \<Rightarrow> nat \<Rightarrow> exn + pyfloat" where
  "analyze_clarity env y sr =
     (case analyze_clarity_try env y sr of Inl e \<Rightarrow> Inr (Num 0) | Inr score \<Rightarrow> Inr score)"

subsection \<open>The confidence extractor\<close>

definition filler_words :: "string list" where
  "filler_words = [''um'', ''uh'', ''like'', ''you know'', ''so'', ''actually'', ''basically'']"

text \<open>\<^verbatim>\<open>sum(1 for word in words if word in [...])\<close>\<close>

definition filler_count :: "string list \<Rightarrow> nat" where
  "filler_count words = sum_list (map (\<lambda>word. 1) (filter (\<lambda>word. word \<in> set filler_words) words))"

text \<open>
  \<^verbatim>\<open>
  volume_stability_score = normalize_score(np.std(librosa.feature.rms(y=y)[0]), 0, 0.1, reverse=True)
  words = transcribed_text.lower().split()
  if not words: return volume_stability_score
  filler_count = sum(1 for word in words if word in [...])
  filler_ratio = filler_count / (len(words) / 100.0) if words else 0
  filler_word_score = normalize_score(filler_ratio, 0, 10, reverse=True)
  return (volume_stability_score + filler_word_score) / 2
  \<close>
\<close>

definition analyze_confidence_try ::
  "capabilities \<Rightarrow> waveform \<Rightarrow> nat \<Rightarrow> string \<Rightarrow> exn + pyfloat" where
  "analyze_confidence_try env y sr transcribed_text =
     (case rms env y of
        Inl e \<Rightarrow> Inl e
      | Inr envelope \<Rightarrow>
     (case normalize_score (np_std envelope) 0 (1 / 10) True of
        Inl e \<Rightarrow> Inl e
      | Inr volume_stability_score \<Rightarrow>
          let words = str_split (str_lower transcribed_text) in
          if words = [] then Inr volume_stability_score
          else
            (case (if words \<noteq> []
                   then (case py_div (Num (real (length words))) (Num 100) of
                           Inl e \<Rightarrow> Inl e
                         | Inr per_100 \<Rightarrow> py_div (Num (real (filler_count words))) per_100)
                   else Inr (Num 0)) of
               Inl e \<Rightarrow> Inl e
             | Inr filler_ratio \<Rightarrow>
            (case normalize_score filler_ratio 0 10 True of
               Inl e \<Rightarrow> Inl e
             | Inr filler_word_score \<Rightarrow>
                 py_div (py_add volume_stability_score filler_word_score) (Num 2)))))"

definition analyze_confidence ::
  "capabilities \<Rightarrow> waveform \<Rightarrow> nat \<Rightarrow> string \<Rightarrow> exn + pyfloat" where
  "analyze_confidence env y sr transcribed_text =
     (case analyze_confidence_try env y sr transcribed_text of
        Inl e \<Rightarrow> Inr (Num 0)
      | Inr score \<Rightarrow> Inr score)"

subsection \<open>The energy and engagement extractor\<close>

text \<open>
  \<^verbatim>\<open>pitch_values = pitches[pitches > 0]\<close>: the positive entries of the whole array.
  Only their number and their extremes are used, so the order of the flattening does
  not matter.
\<close>

definition positive_pitches :: "pitch_track \<Rightarrow> ndarray" where
  "positive_pitches track = filter (\<lambda>p. p > 0) (map fst (concat track))"

text \<open>
  \<^verbatim>\<open>
  pitches, _ = librosa.piptrack(y=y, sr=sr)
  pitch_values = pitches[pitches > 0]
  duration = librosa.get_duration(y=y, sr=sr)
  if duration == 0: return 0.0
  pitch_range_score = normalize_score(np.ptp(pitch_values) if len(pitch_values) > 1 else 0, 50, 250)
  speech_rate_score = normalize_score(len(librosa.onset.onset_detect(y=y, sr=sr)) / duration, 2, 6)
  return (pitch_range_score + speech_rate_score) / 2
  \<close>
\<close>

definition analyze_energy_engagement_try ::
  "capabilities \<Rightarrow> waveform \<Rightarrow> nat \<Rightarrow> exn + pyfloat" where
  "analyze_energy_engagement_try env y sr =
     (case piptrack env y sr of
        Inl e \<Rightarrow> Inl e
      | Inr track \<Rightarrow>
          let pitch_vals = positive_pitches track in
     (case get_duration env y sr of
        Inl e \<Rightarrow> Inl e
      | Inr duration \<Rightarrow>
          if duration = 0 then Inr (Num 0)
          else
            (case (if length pitch_vals > 1 then np_ptp pitch_vals else Inr 0) of
               Inl e \<Rightarrow> Inl e
             | Inr pitch_range \<Rightarrow>
            (case normalize_score (Num pitch_range) 50 250 False of
               Inl e \<Rightarrow> Inl e
             | Inr pitch_range_score \<Rightarrow>
            (case onset_detect env y sr of
               Inl e \<Rightarrow> Inl e
             | Inr onsets \<Rightarrow>
            (case py_div (Num (real (length onsets))) (Num duration) of
               Inl e \<Rightarrow> Inl e
             | Inr rate \<Rightarrow>
            (case normalize_score rate 2 6 False of
               Inl e \<Rightarrow> Inl e
             | Inr speech_rate_score \<Rightarrow>
                 py_div (py_add pitch_range_score speech_rate_score) (Num 2))))))))"

definition analyze_energy_engagement :: "capabilities \<Rightarrow> waveform \<Rightarrow> nat \<Rightarrow> exn + pyfloat" where
  "analyze_energy_engagement env y sr =
     (case analyze_energy_engagement_try env y sr of
        Inl e \<Rightarrow> Inr (Num 0)
      | Inr score \<Rightarrow> Inr score)"

subsection \<open>The score composer\<close>

text \<open>
  The values the two parameters of \<^verbatim>\<open>placeholder_professionalism_score\<close> can hold:
  \<^verbatim>\<open>None\<close>, a number, or a string (the one non-numeric type the report itself uses).
\<close>

datatype pyval = PyNone | PyNum pyfloat | PyStr string

text \<open>\<^verbatim>\<open>a + b\<close> and \<^verbatim>\<open>a / 2\<close> on such values.\<close>

fun py_plus :: "pyval \<Rightarrow> pyval \<Rightarrow> exn + pyval" where
  "py_plus (PyNum a) (PyNum b) = Inr (PyNum (py_add a b))"
| "py_plus (PyStr a) (PyStr b) = Inr (PyStr (a @ b))"
| "py_plus _ _ = Inl (TypeError ''unsupported operand type(s) for +'')"

fun py_truediv :: "pyval \<Rightarrow> pyfloat \<Rightarrow> exn + pyval" where
  "py_truediv (PyNum a) b = (case py_div a b of Inl e \<Rightarrow> Inl e | Inr q \<Rightarrow> Inr (PyNum q))"
| "py_truediv _ b = Inl (TypeError ''unsupported operand type(s) for /'')"

text \<open>
  \<^verbatim>\<open>
  def placeholder_professionalism_score(clarity, confidence):
      if clarity is None or confidence is None:
          return "Not Calculated"
      return (clarity + confidence) / 2
  \<close>
\<close>

definition placeholder_professionalism_score :: "pyval \<Rightarrow> pyval \<Rightarrow> exn + pyval" where
  "placeholder_professionalism_score clarity confidence =
     (if clarity = PyNone \<or> confidence = PyNone then Inr (PyStr ''Not Calculated'')
      else (case py_plus clarity confidence of
              Inl e \<Rightarrow> Inl e
            | Inr added \<Rightarrow> py_truediv added (Num 2)))"

definition placeholder_mood_analysis :: "(string \<times> string) list" where
  "placeholder_mood_analysis = [(''Status'', ''Not Implemented'')]"

subsection \<open>The orchestrator\<close>

text \<open>
  The report is a dict, kept as the list of its items in insertion order; a field is a
  float or a string.
\<close>

datatype field = Number pyfloat | Text string

type_synonym report = "(string \<times> field) list"

text \<open>
  The stages of \<^verbatim>\<open>run_full_analysis\<close>. The function returns, next to its outcome
  (a raised exception or the returned dict), the stages it entered, in order.
  \<open>Loading\<close> is the \<^verbatim>\<open>try\<close> block, standardizing included.
\<close>

datatype stage = Loading | SilenceCheck | Transcribing | Extracting | Composing

text \<open>
  \<^verbatim>\<open>float(professionalism_score) if isinstance(professionalism_score, (int, float, np.number))
  else "Not Calculated"\<close>
\<close>

fun professionalism_field :: "pyval \<Rightarrow> field" where
  "professionalism_field (PyNum x) = Number x"
| "professionalism_field _ = Text ''Not Calculated''"

definition silence_report :: report where
  "silence_report =
     [(''Clarity Score'', Number (Num 0)),
      (''Confidence Score'', Number (Num 0)),
      (''Energy & Engagement Score'', Number (Num 0)),
      (''Professionalism Score'', Number (Num 0)),
      (''Mood Analysis'', Text ''Not Implemented''),
      (''Transcription'', Text ''Audio is silent or contains no speech.'')]"

text \<open>Everything after the silence check: transcription, the extractors, the composer.\<close>

definition analyze_speech ::
  "capabilities \<Rightarrow> waveform \<Rightarrow> nat \<Rightarrow> stage list \<times> (exn + report)" where
  "analyze_speech env y sr =
     (case transcribe env y of
        Inl e \<Rightarrow> ([Transcribing], Inl e)
      | Inr transcribed_text \<Rightarrow>
     (case analyze_clarity env y sr of
        Inl e \<Rightarrow> ([Transcribing, Extracting], Inl e)
      | Inr clarity_score \<Rightarrow>
     (case analyze_confidence env y sr transcribed_text of
        Inl e \<Rightarrow> ([Transcribing, Extracting], Inl e)
      | Inr confidence_score \<Rightarrow>
     (case analyze_energy_engagement env y sr of
        Inl e \<Rightarrow> ([Transcribing, Extracting], Inl e)
      | Inr engagement_score \<Rightarrow>
     (case placeholder_professionalism_score (PyNum clarity_score) (PyNum confidence_score) of
        Inl e \<Rightarrow> ([Transcribing, Extracting, Composing], Inl e)
      | Inr professionalism_score \<Rightarrow>
     (case map_of placeholder_mood_analysis ''Status'' of
        None \<Rightarrow> ([Transcribing, Extracting, Composing], Inl (KeyError ''Status''))
      | Some mood \<Rightarrow>
          ([Transcribing, Extracting, Composing],
           Inr [(''Clarity Score'', Number clarity_score),
                (''Confidence Score'', Number confidence_score),
                (''Energy & Engagement Score'', Number engagement_score),
                (''Professionalism Score'', professionalism_field professionalism_score),
                (''Mood Analysis'', Text mood),
                (''Transcription'', Text transcribed_text)])))))))"

text \<open>
  \<^verbatim>\<open>
  def run_full_analysis(audio_path):
      try:
          ...
          y, sr = librosa.load(wav_buffer, sr=16000)
      except Exception as e:
          return {"error": f"Could not load audio file: {e}"}
      if np.max(np.abs(y)) < 0.001:
          return {...}
      ...
  \<close>
\<close>

definition run_full_analysis :: "capabilities \<Rightarrow> string \<Rightarrow> stage list \<times> (exn + report)" where
  "run_full_analysis env audio_path =
     (case load_audio env audio_path of
        Inl e \<Rightarrow> ([Loading], Inr [(''error'', Text (''Could not load audio file: '' @ str_exn e))])
      | Inr y \<Rightarrow>
          let sr = 16000 in
          (case np_max (np_abs y) of
             Inl e \<Rightarrow> ([Loading, SilenceCheck], Inl e)
           | Inr peak \<Rightarrow>
               if peak < 1 / 1000 then ([Loading, SilenceCheck], Inr silence_report)
               else
                 (case analyze_speech env y sr of
                    (stages, outcome) \<Rightarrow> (Loading # SilenceCheck # stages, outcome))))"

subsection \<open>The filler count in the words of the specification\<close>

text \<open>
  The specification counts "filler tokens against a fixed closed set" after it has
  "tokenized the transcription by whitespace, lower-cased". The definitions of this
  subsection say that directly, without the loop of \<open>split_from\<close> and without the
  code-point arithmetic of \<open>lower_char\<close>; they are what the definitions taken from
  the source are compared with.
\<close>

definition upper_letters :: string where
  "upper_letters = ''ABCDEFGHIJKLMNOPQRSTUVWXYZ'' @
     [
      CHR 0xC0, CHR 0xC1, CHR 0xC2, CHR 0xC3, CHR 0xC4, CHR 0xC5, CHR 0xC6, CHR 0xC7,
      CHR 0xC8, CHR 0xC9, CHR 0xCA, CHR 0xCB, CHR 0xCC, CHR 0xCD, CHR 0xCE, CHR 0xCF,
      CHR 0xD0, CHR 0xD1, CHR 0xD2, CHR 0xD3, CHR 0xD4, CHR 0xD5, CHR 0xD6, CHR 0xD8,
      CHR 0xD9, CHR 0xDA, CHR 0xDB, CHR 0xDC, CHR 0xDD, CHR 0xDE]"

definition lower_letters :: string where
  "lower_letters = ''abcdefghijklmnopqrstuvwxyz'' @
     [
      CHR 0xE0, CHR 0xE1, CHR 0xE2, CHR 0xE3, CHR 0xE4, CHR 0xE5, CHR 0xE6, CHR 0xE7,
      CHR 0xE8, CHR 0xE9, CHR 0xEA, CHR 0xEB, CHR 0xEC, CHR 0xED, CHR 0xEE, CHR 0xEF,
      CHR 0xF0, CHR 0xF1, CHR 0xF2, CHR 0xF3, CHR 0xF4, CHR 0xF5, CHR 0xF6, CHR 0xF8,
      CHR 0xF9, CHR 0xFA, CHR 0xFB, CHR 0xFC, CHR 0xFD, CHR 0xFE]"

text \<open>
  \<open>spec_lower_char\<close>: a letter of the upper-case list becomes the letter at the same
  place of the lower-case list; every other character stays.
\<close>

definition spec_lower_char :: "char \<Rightarrow> char" where
  "spec_lower_char c =
     (case map_of (zip upper_letters lower_letters) c of Some l \<Rightarrow> l | None \<Rightarrow> c)"

text \<open>
  \<open>spec_split\<close>: whitespace is skipped; a word is a first non-whitespace character
  and the non-whitespace characters that follow it, and the rest is split in turn.
\<close>

function spec_split :: "string \<Rightarrow> string list" where
  "spec_split [] = []"
| "spec_split (c # s) =
     (if isspace c then spec_split s
      else (c # takeWhile (\<lambda>d. \<not> isspace d) s) # spec_split (dropWhile (\<lambda>d. \<not> isspace d) s))"
  by pat_completeness auto
termination
  by (relation "measure length") (auto simp: less_Suc_eq_le length_dropWhile_le)

definition spec_tokens :: "string \<Rightarrow> string list" where
  "spec_tokens transcription = spec_split (map spec_lower_char transcription)"

text \<open>The number of tokens that belong to the filler set.\<close>

definition spec_filler_count :: "string \<Rightarrow> nat" where
  "spec_filler_count transcription =
     length (filter (\<lambda>word. word \<in> {''um'', ''uh'', ''like'', ''you know'', ''so'', ''actually'', ''basically''})
               (spec_tokens transcription))"

subsection \<open>What the pipeline relies on from librosa\<close>

text \<open>
  With their default parameters \<^verbatim>\<open>librosa.feature.rms\<close> and
  \<^verbatim>\<open>librosa.piptrack\<close> cut the waveform into the same frames (frame length 2048,
  hop length 512, centred): the RMS envelope is never empty and has one value for each
  frame of the pitch track. The code of the extractors does not check this; it is a
  property of the library, stated here so that theorems can assume it.
\<close>

definition framing_consistent :: "capabilities \<Rightarrow> bool" where
  "framing_consistent env =
     (\<forall>y envelope. rms env y = Inr envelope \<longrightarrow>
        envelope \<noteq> [] \<and>
        (\<forall>sr track. piptrack env y sr = Inr track \<longrightarrow> length track = length envelope))"

subsection \<open>Example capabilities\<close>

text \<open>
  Concrete capabilities on which the theorems below are instantiated. \<open>studio\<close> decodes
  every path but three: \<^verbatim>\<open>notes.txt\<close> is no audio file, \<^verbatim>\<open>silence.wav\<close>
  holds three near-zero samples, and \<^verbatim>\<open>empty.wav\<close> is a WAV header with no
  sample. The transcription and the pitch track are parameters.
\<close>

definition studio :: "string \<Rightarrow> pitch_track \<Rightarrow> capabilities" where
  "studio transcription track =
     \<lparr>load_audio = (\<lambda>path.
        if path = ''notes.txt'' then Inl (LibraryError ''Decoding failed'')
        else if path = ''silence.wav'' then Inr [0, 1 / 10000, - 1 / 10000]
        else if path = ''empty.wav'' then Inr []
        else Inr [1 / 2, - 1 / 2]),
      transcribe = (\<lambda>y. Inr transcription),
      piptrack = (\<lambda>y sr. Inr track),
      rms = (\<lambda>y. Inr (map (\<lambda>frame. 1 / 10) track)),
      onset_detect = (\<lambda>y sr. Inr [1, 2, 3, 4]),
      get_duration = (\<lambda>y sr. Inr 1)\<rparr>"

definition voiced_track :: pitch_track where
  "voiced_track = [[(100, 1), (200, 3)], [(0, 1), (150, 0)], [(210, 2), (100, 1)]]"

text \<open>A pitch track with a single voiced frame.\<close>

definition sparse_track :: pitch_track where
  "sparse_track = [[(100, 1), (200, 3)], [(0, 1), (150, 0)]]"

text \<open>A transcription of twenty words, one of them a filler, with capitals.\<close>

definition interview :: string where
  "interview = ''UM You Know I think that we can go home now and rest for a long while after today ok''"

text \<open>Capabilities whose spectral primitives all raise.\<close>

definition broken_spectral :: capabilities where
  "broken_spectral =
     \<lparr>load_audio = (\<lambda>path. Inr [1 / 2, - 1 / 2]),
      transcribe = (\<lambda>y. Inr ''hello''),
      piptrack = (\<lambda>y sr. Inl (LibraryError ''piptrack failed'')),
      rms = (\<lambda>y. Inl (LibraryError ''rms failed'')),
      onset_detect = (\<lambda>y sr. Inl (LibraryError ''onset_detect failed'')),
      get_duration = (\<lambda>y sr. Inl (LibraryError ''get_duration failed''))\<rparr>"

section \<open>Properties of the normalizer\<close>

lemma py_clamp_Num:
  "py_max (py_min (Num v) (Num hi)) (Num lo) = Num (max (min v hi) lo)"
  by (simp add: py_min_def py_max_def max_def min_def)

lemma normalize_score_Num:
  assumes "min_val < max_val"
  shows "normalize_score (Num v) min_val max_val reverse =
           Inr (Num (if reverse
                     then (1 - (max (min v max_val) min_val - min_val) / (max_val - min_val)) * 10
                     else (max (min v max_val) min_val - min_val) / (max_val - min_val) * 10))"
proof -
  have "max_val - min_val \<noteq> 0" using assms by simp
  then show ?thesis
    unfolding normalize_score_def py_clamp_Num Let_def by simp
qed

lemma normalize_score_NaN:
  "min_val \<noteq> max_val \<Longrightarrow> normalize_score NaN min_val max_val reverse = Inr NaN"
  by (simp add: normalize_score_def py_min_def py_max_def)

lemma unit_fraction:
  fixes v :: real
  assumes "min_val < max_val"
  shows "0 \<le> (max (min v max_val) min_val - min_val) / (max_val - min_val)"
    and "(max (min v max_val) min_val - min_val) / (max_val - min_val) \<le> 1"
  using assms by (auto simp: max_def min_def)

lemma normalize_score_range:
  assumes "min_val < max_val"
  shows "\<exists>r. normalize_score (Num v) min_val max_val reverse = Inr (Num r) \<and> 0 \<le> r \<and> r \<le> 10"
proof -
  define n where "n = (max (min v max_val) min_val - min_val) / (max_val - min_val)"
  have "0 \<le> n" "n \<le> 1" using unit_fraction [OF assms] by (simp_all add: n_def)
  then have "0 \<le> n * 10 \<and> n * 10 \<le> 10 \<and> 0 \<le> (1 - n) * 10 \<and> (1 - n) * 10 \<le> 10"
    by simp
  then show ?thesis
    unfolding normalize_score_Num [OF assms] n_def [symmetric] by (cases reverse) simp_all
qed

text \<open>
  In exact arithmetic, that is, while no intermediate result leaves the range of a
  double, and for a value that is a number: with \<open>min_val < max_val\<close> the normalizer
  returns a number in \<open>[0, 10]\<close>, 0 at \<open>min_val\<close> and 10 at \<open>max_val\<close> (10 and 0
  when \<open>reverse\<close> is set), it is monotone in the value, and a value outside the
  bounds gives the result of the bound it was clamped to.
\<close>

lemma normalize_score_exact:
  assumes "min_val < max_val"
  shows "(\<exists>r. normalize_score (Num v) min_val max_val reverse = Inr (Num r) \<and> 0 \<le> r \<and> r \<le> 10)
       \<and> normalize_score (Num min_val) min_val max_val False = Inr (Num 0)
       \<and> normalize_score (Num max_val) min_val max_val False = Inr (Num 10)
       \<and> normalize_score (Num min_val) min_val max_val True = Inr (Num 10)
       \<and> normalize_score (Num max_val) min_val max_val True = Inr (Num 0)
       \<and> (\<forall>w r s. v \<le> w \<and> normalize_score (Num v) min_val max_val False = Inr (Num r)
                     \<and> normalize_score (Num w) min_val max_val False = Inr (Num s) \<longrightarrow> r \<le> s)
       \<and> (\<forall>w r s. v \<le> w \<and> normalize_score (Num v) min_val max_val True = Inr (Num r)
                     \<and> normalize_score (Num w) min_val max_val True = Inr (Num s) \<longrightarrow> s \<le> r)
       \<and> (v \<le> min_val \<longrightarrow>
            normalize_score (Num v) min_val max_val reverse =
            normalize_score (Num min_val) min_val max_val reverse)
       \<and> (max_val \<le> v \<longrightarrow>
            normalize_score (Num v) min_val max_val reverse =
            normalize_score (Num max_val) min_val max_val reverse)"
proof -
  have pos: "0 < max_val - min_val" using assms by simp
  have range: "\<exists>r. normalize_score (Num v) min_val max_val reverse = Inr (Num r) \<and> 0 \<le> r \<and> r \<le> 10"
    by (rule normalize_score_range [OF assms])
  have ends: "normalize_score (Num min_val) min_val max_val False = Inr (Num 0)"
    "normalize_score (Num max_val) min_val max_val False = Inr (Num 10)"
    "normalize_score (Num min_val) min_val max_val True = Inr (Num 10)"
    "normalize_score (Num max_val) min_val max_val True = Inr (Num 0)"
    using assms by (simp_all add: normalize_score_Num)
  have mono: "(max (min v max_val) min_val - min_val) / (max_val - min_val)
                \<le> (max (min w max_val) min_val - min_val) / (max_val - min_val)"
    if "v \<le> w" for w
    using that pos by (intro divide_right_mono) (auto simp: max_def min_def)
  have up: "\<forall>w r s. v \<le> w \<and> normalize_score (Num v) min_val max_val False = Inr (Num r)
                     \<and> normalize_score (Num w) min_val max_val False = Inr (Num s) \<longrightarrow> r \<le> s"
  proof (intro allI impI, elim conjE)
    fix w r s
    assume "v \<le> w"
      and "normalize_score (Num v) min_val max_val False = Inr (Num r)"
      and "normalize_score (Num w) min_val max_val False = Inr (Num s)"
    then have "r = (max (min v max_val) min_val - min_val) / (max_val - min_val) * 10"
      and "s = (max (min w max_val) min_val - min_val) / (max_val - min_val) * 10"
      and "(max (min v max_val) min_val - min_val) / (max_val - min_val)
             \<le> (max (min w max_val) min_val - min_val) / (max_val - min_val)"
      using mono unfolding normalize_score_Num [OF assms] by simp_all
    then show "r \<le> s" by (simp only: mult_right_mono)
  qed
  have down: "\<forall>w r s. v \<le> w \<and> normalize_score (Num v) min_val max_val True = Inr (Num r)
                     \<and> normalize_score (Num w) min_val max_val True = Inr (Num s) \<longrightarrow> s \<le> r"
  proof (intro allI impI, elim conjE)
    fix w r s
    assume "v \<le> w"
      and "normalize_score (Num v) min_val max_val True = Inr (Num r)"
      and "normalize_score (Num w) min_val max_val True = Inr (Num s)"
    then have "r = (1 - (max (min v max_val) min_val - min_val) / (max_val - min_val)) * 10"
      and "s = (1 - (max (min w max_val) min_val - min_val) / (max_val - min_val)) * 10"
      and "(max (min v max_val) min_val - min_val) / (max_val - min_val)
             \<le> (max (min w max_val) min_val - min_val) / (max_val - min_val)"
      using mono unfolding normalize_score_Num [OF assms] by simp_all
    then show "s \<le> r" by (simp only: mult_right_mono diff_left_mono)
  qed
  have low: "max (min v max_val) min_val = max (min min_val max_val) min_val" if "v \<le> min_val"
    using that assms by (simp add: max_def min_def)
  have high: "max (min v max_val) min_val = max (min max_val max_val) min_val" if "max_val \<le> v"
    using that assms by (simp add: max_def min_def)
  have sat: "v \<le> min_val \<longrightarrow>
            normalize_score (Num v) min_val max_val reverse =
            normalize_score (Num min_val) min_val max_val reverse"
     "max_val \<le> v \<longrightarrow>
            normalize_score (Num v) min_val max_val reverse =
            normalize_score (Num max_val) min_val max_val reverse"
    unfolding normalize_score_Num [OF assms] using low high by auto
  show ?thesis using range ends up down sat by blast
qed

text \<open>
  Claim C1. The normalizer is to return a float in \<open>[0, 10]\<close> for every value and
  all bounds with \<open>min_val < max_val\<close>, as its docstring ("Normalizes a value to a
  0-10 scale") says. The code does not: the float nan is neither below \<open>max_val\<close> nor
  above \<open>min_val\<close>, so \<^verbatim>\<open>max(min(value, max_val), min_val)\<close> hands it on and
  the result is nan, with and without \<open>reverse\<close>.
\<close>

theorem normalize_score_nan_value:
  "normalize_score NaN 0 10 False = Inr NaN \<and> normalize_score NaN 0 10 True = Inr NaN"
  by (simp add: normalize_score_def py_min_def py_max_def)

section \<open>Properties of the extractors\<close>

subsection \<open>Arithmetic helpers\<close>

lemma normalize_score_returns:
  assumes "min_val \<noteq> max_val"
  shows "\<exists>score. normalize_score x min_val max_val reverse = Inr score"
proof -
  have "max_val - min_val \<noteq> 0" using assms by simp
  then have "\<exists>q. py_div a (Num (max_val - min_val)) = Inr q" for a
    by (cases a) simp_all
  then obtain q where
    "py_div (py_sub (py_max (py_min x (Num max_val)) (Num min_val)) (Num min_val))
       (Num (max_val - min_val)) = Inr q"
    by blast
  then show ?thesis by (simp add: normalize_score_def)
qed

lemma py_mean_Num: "py_div (py_add (Num a) (Num b)) (Num 2) = Inr (Num ((a + b) / 2))"
  by simp

lemma py_half_returns: "\<exists>h. py_div x (Num 2) = Inr h"
  by (cases x) simp_all

lemma mean_in_range:
  fixes a b :: real
  assumes "0 \<le> a" "a \<le> 10" "0 \<le> b" "b \<le> 10"
  shows "0 \<le> (a + b) / 2 \<and> (a + b) / 2 \<le> 10"
  using assms by simp

lemma np_mean_Num: "xs \<noteq> [] \<Longrightarrow> \<exists>m. np_mean xs = Num m"
  by (simp add: np_mean_def)

lemma np_std_Num: "xs \<noteq> [] \<Longrightarrow> \<exists>m. np_std xs = Num m"
  by (simp add: np_std_def Let_def)

lemma length_np_diff: "length (np_diff xs) = length xs - 1"
  by (induction xs rule: np_diff.induct) simp_all

lemma np_abs_diff_nonempty: "2 \<le> length xs \<Longrightarrow> np_abs (np_diff xs) \<noteq> []"
proof -
  assume "2 \<le> length xs"
  then have "0 < length (np_diff xs)" by (simp add: length_np_diff)
  then show ?thesis by (simp add: np_abs_def)
qed

lemma argmax_from_less:
  "best_i < i \<Longrightarrow> argmax_from best_i best i xs < i + length xs"
proof (induction xs arbitrary: best_i best i)
  case Nil
  then show ?case by simp
next
  case (Cons x xs)
  have "argmax_from i x (Suc i) xs < Suc i + length xs"
    by (rule Cons.IH) simp
  moreover have "argmax_from best_i best (Suc i) xs < Suc i + length xs"
    by (rule Cons.IH) (use Cons.prems in simp)
  ultimately show ?case by simp
qed

lemma argmax_less_length: "argmax xs = Inr i \<Longrightarrow> i < length xs"
proof (cases xs)
  case Nil
  assume "argmax xs = Inr i"
  with Nil show ?thesis by simp
next
  case (Cons x rest)
  assume "argmax xs = Inr i"
  with Cons have "i = argmax_from 0 x 1 rest" by simp
  with Cons show ?thesis using argmax_from_less [of 0 1 x rest] by simp
qed

subsection \<open>Tokens\<close>

lemma split_from_tokens:
  assumes "\<forall>c\<in>set cur. \<not> isspace c" and "w \<in> set (split_from cur s)"
  shows "w \<noteq> [] \<and> (\<forall>c\<in>set w. \<not> isspace c)"
  using assms
proof (induction s arbitrary: cur)
  case Nil
  then show ?case by (auto split: if_splits)
next
  case (Cons c cs)
  show ?case
  proof (cases "isspace c")
    case True
    with Cons.prems have "w = cur \<and> cur \<noteq> [] \<or> w \<in> set (split_from [] cs)"
      by (auto split: if_splits)
    then show ?thesis
    proof
      assume "w = cur \<and> cur \<noteq> []"
      with Cons.prems(1) show ?thesis by simp
    next
      assume "w \<in> set (split_from [] cs)"
      then show ?thesis using Cons.IH [of "[]"] by simp
    qed
  next
    case False
    with Cons.prems have "w \<in> set (split_from (cur @ [c]) cs)" by simp
    moreover have "\<forall>d\<in>set (cur @ [c]). \<not> isspace d" using False Cons.prems(1) by simp
    ultimately show ?thesis using Cons.IH [of "cur @ [c]"] by blast
  qed
qed

lemma str_split_tokens:
  "w \<in> set (str_split s) \<Longrightarrow> w \<noteq> [] \<and> (\<forall>c\<in>set w. \<not> isspace c)"
  unfolding str_split_def using split_from_tokens [of "[]" w s] by simp

lemma isspace_space: "isspace CHR '' ''"
  by (simp add: isspace_def)

lemma you_know_no_token: "''you know'' \<notin> set (str_split s)"
proof
  assume "''you know'' \<in> set (str_split s)"
  then have "\<forall>c\<in>set ''you know''. \<not> isspace c" using str_split_tokens by blast
  then have "\<not> isspace CHR '' ''" by simp
  then show False using isspace_space by simp
qed

lemma split_from_Nil_iff:
  "split_from cur s = [] \<longleftrightarrow> cur = [] \<and> (\<forall>c\<in>set s. isspace c)"
  by (induction s arbitrary: cur) auto

lemma str_split_Nil_iff: "str_split s = [] \<longleftrightarrow> (\<forall>c\<in>set s. isspace c)"
  by (simp add: str_split_def split_from_Nil_iff)

lemma filler_count_length:
  "filler_count words = length (filter (\<lambda>word. word \<in> set filler_words) words)"
  unfolding filler_count_def by (induction words) simp_all

text \<open>
  The lower-casing and the splitting taken from the source agree with the ones written
  in the words of the specification.
\<close>

lemma lower_char_table: "lower_char c = spec_lower_char c"
proof (cases c)
  case (Char b0 b1 b2 b3 b4 b5 b6 b7)
  show ?thesis
    unfolding Char
    by (cases b0; cases b1; cases b2; cases b3; cases b4; cases b5; cases b6; cases b7;
        simp add: lower_char_def spec_lower_char_def upper_letters_def lower_letters_def
          char_of_eq_iff)
qed

lemma str_lower_table: "str_lower s = map spec_lower_char s"
  by (simp add: str_lower_def lower_char_table)

lemma split_from_spec:
  "split_from cur s =
     (if cur = [] then spec_split s
      else (cur @ takeWhile (\<lambda>d. \<not> isspace d) s) # spec_split (dropWhile (\<lambda>d. \<not> isspace d) s))"
proof (induction s arbitrary: cur)
  case Nil
  then show ?case by simp
next
  case (Cons c cs)
  show ?case
  proof (cases "isspace c")
    case True
    then show ?thesis using Cons.IH [of "[]"] by simp
  next
    case False
    then show ?thesis using Cons.IH [of "cur @ [c]"] by simp
  qed
qed

lemma str_split_spec: "str_split s = spec_split s"
  by (simp add: str_split_def split_from_spec)

lemma tokens_spec: "str_split (str_lower transcription) = spec_tokens transcription"
  by (simp add: str_split_spec str_lower_table spec_tokens_def)

subsection \<open>Extractors\<close>

lemma analyze_clarity_returns: "\<exists>score. analyze_clarity env y sr = Inr score"
  by (simp add: analyze_clarity_def split: sum.split)

lemma analyze_confidence_returns: "\<exists>score. analyze_confidence env y sr text = Inr score"
  by (simp add: analyze_confidence_def split: sum.split)

lemma analyze_energy_engagement_returns: "\<exists>score. analyze_energy_engagement env y sr = Inr score"
  by (simp add: analyze_energy_engagement_def split: sum.split)

text \<open>
  Claim C6. When the computation inside an extractor raises, the extractor returns 0.0;
  and whatever its input, each of the three extractors returns a value: no exception
  reaches its caller.
\<close>

theorem extractors_absorb_exceptions:
  "(analyze_clarity_try env y sr = Inl e1 \<longrightarrow> analyze_clarity env y sr = Inr (Num 0))
   \<and> (analyze_confidence_try env y sr text = Inl e2 \<longrightarrow>
        analyze_confidence env y sr text = Inr (Num 0))
   \<and> (analyze_energy_engagement_try env y sr = Inl e3 \<longrightarrow>
        analyze_energy_engagement env y sr = Inr (Num 0))
   \<and> (\<exists>score. analyze_clarity env y sr = Inr score)
   \<and> (\<exists>score. analyze_confidence env y sr text = Inr score)
   \<and> (\<exists>score. analyze_energy_engagement env y sr = Inr score)"
  by (simp add: analyze_clarity_def analyze_confidence_def analyze_energy_engagement_def
      split: sum.split)

theorem extractors_absorb_exceptions_witness:
  "analyze_clarity_try broken_spectral [1 / 2, - 1 / 2] 16000 = Inl (LibraryError ''piptrack failed'')
   \<and> analyze_clarity broken_spectral [1 / 2, - 1 / 2] 16000 = Inr (Num 0)
   \<and> analyze_confidence_try broken_spectral [1 / 2, - 1 / 2] 16000 ''hello'' = Inl (LibraryError ''rms failed'')
   \<and> analyze_confidence broken_spectral [1 / 2, - 1 / 2] 16000 ''hello'' = Inr (Num 0)
   \<and> analyze_energy_engagement_try broken_spectral [1 / 2, - 1 / 2] 16000 = Inl (LibraryError ''piptrack failed'')
   \<and> analyze_energy_engagement broken_spectral [1 / 2, - 1 / 2] 16000 = Inr (Num 0)"
proof -
  have clarity: "analyze_clarity_try broken_spectral [1 / 2, - 1 / 2] 16000 = Inl (LibraryError ''piptrack failed'')"
    by (simp add: analyze_clarity_try_def broken_spectral_def)
  have confidence: "analyze_confidence_try broken_spectral [1 / 2, - 1 / 2] 16000 ''hello'' = Inl (LibraryError ''rms failed'')"
    by (simp add: analyze_confidence_try_def broken_spectral_def)
  have energy: "analyze_energy_engagement_try broken_spectral [1 / 2, - 1 / 2] 16000 = Inl (LibraryError ''piptrack failed'')"
    by (simp add: analyze_energy_engagement_try_def broken_spectral_def)
  show ?thesis
    using clarity confidence energy
      extractors_absorb_exceptions [of broken_spectral "[1 / 2, - 1 / 2]" 16000
        "LibraryError ''piptrack failed''" "''hello''" "LibraryError ''rms failed''"
        "LibraryError ''piptrack failed''"]
    by blast
qed

text \<open>
  Claim C7. When the pitch track yields fewer than two voiced frames,
  \<^verbatim>\<open>analyze_clarity\<close> returns exactly 0.0, and it does so by the explicit
  \<^verbatim>\<open>return 0.0\<close> of the \<^verbatim>\<open>try\<close> block, which ends normally.
\<close>

theorem clarity_floor:
  assumes "piptrack env y sr = Inr track"
    and "pitch_values track = Inr voiced"
    and "length voiced < 2"
  shows "analyze_clarity_try env y sr = Inr (Num 0) \<and> analyze_clarity env y sr = Inr (Num 0)"
  using assms by (simp add: analyze_clarity_try_def analyze_clarity_def)

theorem clarity_floor_witness:
  "pitch_values sparse_track = Inr [200]
   \<and> analyze_clarity_try (studio ''hello'' sparse_track) [1 / 2, - 1 / 2] 16000 = Inr (Num 0)
   \<and> analyze_clarity (studio ''hello'' sparse_track) [1 / 2, - 1 / 2] 16000 = Inr (Num 0)"
proof -
  have track: "piptrack (studio ''hello'' sparse_track) [1 / 2, - 1 / 2] 16000 = Inr sparse_track"
    by (simp add: studio_def)
  have voiced: "pitch_values sparse_track = Inr [200]"
    by (simp add: sparse_track_def)
  have few: "length [200 :: real] < 2" by simp
  show ?thesis using voiced clarity_floor [OF track voiced few] by simp
qed

text \<open>
  Claim C8. When the lower-cased transcription splits into no word,
  \<^verbatim>\<open>analyze_confidence\<close> returns the volume-stability score
  \<^verbatim>\<open>normalize_score(np.std(rms), 0, 0.1, reverse=True)\<close> alone.
\<close>

theorem confidence_without_words:
  assumes "rms env y = Inr envelope"
    and "str_split (str_lower transcribed_text) = []"
  shows "analyze_confidence env y sr transcribed_text =
           normalize_score (np_std envelope) 0 (1 / 10) True"
proof -
  obtain score where score: "normalize_score (np_std envelope) 0 (1 / 10) True = Inr score"
    using normalize_score_returns [of 0 "1 / 10"] by auto
  show ?thesis
    using assms by (simp add: analyze_confidence_def analyze_confidence_try_def score)
qed

theorem confidence_without_words_witness:
  "str_split (str_lower '' '') = []
   \<and> analyze_confidence (studio '' '' voiced_track) [1 / 2, - 1 / 2] 16000 '' '' = Inr (Num 10)"
proof -
  have envelope: "rms (studio '' '' voiced_track) [1 / 2, - 1 / 2] = Inr [1 / 10, 1 / 10, 1 / 10]"
    by (simp add: studio_def voiced_track_def)
  have no_words: "str_split (str_lower '' '') = []"
    by (simp add: str_split_def str_lower_def lower_char_def isspace_def)
  have "np_std [1 / 10, 1 / 10, 1 / 10] = Num 0"
    by (simp add: np_std_def)
  then have "normalize_score (np_std [1 / 10, 1 / 10, 1 / 10]) 0 (1 / 10) True = Inr (Num 10)"
    by (simp add: normalize_score_Num)
  then show ?thesis
    using no_words confidence_without_words [OF envelope no_words, of 16000] by simp
qed

subsection \<open>Ranges\<close>

lemma normalize_score_mean_range:
  assumes "lo1 < hi1" "lo2 < hi2"
  shows "\<exists>a b. normalize_score (Num u) lo1 hi1 r1 = Inr (Num a)
           \<and> normalize_score (Num v) lo2 hi2 r2 = Inr (Num b)
           \<and> py_div (py_add (Num a) (Num b)) (Num 2) = Inr (Num ((a + b) / 2))
           \<and> 0 \<le> (a + b) / 2 \<and> (a + b) / 2 \<le> 10"
proof -
  obtain a where a: "normalize_score (Num u) lo1 hi1 r1 = Inr (Num a)" "0 \<le> a" "a \<le> 10"
    using normalize_score_range [OF assms(1)] by blast
  obtain b where b: "normalize_score (Num v) lo2 hi2 r2 = Inr (Num b)" "0 \<le> b" "b \<le> 10"
    using normalize_score_range [OF assms(2)] by blast
  show ?thesis using a b mean_in_range [of a b] py_mean_Num [of a b] by blast
qed

lemma pitch_values_length: "pitch_values track = Inr voiced \<Longrightarrow> length voiced \<le> length track"
proof (induction track arbitrary: voiced)
  case Nil
  then show ?case by simp
next
  case (Cons frame frames)
  then show ?case by (fastforce split: sum.splits if_splits)
qed

lemma analyze_clarity_try_range:
  assumes "framing_consistent env" and "analyze_clarity_try env y sr = Inr score"
  shows "\<exists>r. score = Num r \<and> 0 \<le> r \<and> r \<le> 10"
proof -
  from assms(2) obtain track where track: "piptrack env y sr = Inr track"
    by (auto simp: analyze_clarity_try_def split: sum.splits)
  from assms(2) track obtain voiced where voiced: "pitch_values track = Inr voiced"
    by (auto simp: analyze_clarity_try_def split: sum.splits)
  show ?thesis
  proof (cases "length voiced < 2")
    case True
    with assms(2) track voiced have "score = Num 0" by (simp add: analyze_clarity_try_def)
    then show ?thesis by simp
  next
    case False
    with assms(2) track voiced obtain envelope where envelope: "rms env y = Inr envelope"
      by (auto simp: analyze_clarity_try_def split: sum.splits)
    have "length envelope = length track"
      using assms(1) envelope track unfolding framing_consistent_def by metis
    then have "2 \<le> length envelope" using False pitch_values_length [OF voiced] by simp
    then obtain shimmer where shimmer: "np_mean (np_abs (np_diff envelope)) = Num shimmer"
      using np_mean_Num [OF np_abs_diff_nonempty] by blast
    obtain jitter where jitter: "np_mean (np_abs (np_diff voiced)) = Num jitter"
      using False np_mean_Num [OF np_abs_diff_nonempty, of voiced] by auto
    obtain a b where ab: "normalize_score (Num jitter) 0 5 True = Inr (Num a)"
      "normalize_score (Num shimmer) 0 (1 / 10) True = Inr (Num b)"
      "py_div (py_add (Num a) (Num b)) (Num 2) = Inr (Num ((a + b) / 2))"
      "0 \<le> (a + b) / 2 \<and> (a + b) / 2 \<le> 10"
      using normalize_score_mean_range [of 0 5 0 "1 / 10" jitter True shimmer True] by auto
    have "analyze_clarity_try env y sr = Inr (Num ((a + b) / 2))"
      using track voiced False envelope jitter shimmer ab(1,2)
      by (simp add: analyze_clarity_try_def)
    with assms(2) have "score = Num ((a + b) / 2)" by simp
    with ab(4) show ?thesis by blast
  qed
qed

lemma analyze_clarity_range:
  assumes "framing_consistent env" and "analyze_clarity env y sr = Inr score"
  shows "\<exists>r. score = Num r \<and> 0 \<le> r \<and> r \<le> 10"
proof (cases "analyze_clarity_try env y sr")
  case (Inl e)
  with assms(2) have "score = Num 0" by (simp add: analyze_clarity_def)
  then show ?thesis by simp
next
  case (Inr s)
  with assms(2) have "score = s" by (simp add: analyze_clarity_def)
  with Inr analyze_clarity_try_range [OF assms(1)] show ?thesis by blast
qed

lemma filler_ratio_Num:
  assumes "words \<noteq> []"
  shows "(case py_div (Num (real (length words))) (Num 100) of
            Inl e \<Rightarrow> Inl e
          | Inr per_100 \<Rightarrow> py_div (Num (real (filler_count words))) per_100)
         = Inr (Num (real (filler_count words) / (real (length words) / 100)))"
  using assms by simp

lemma analyze_confidence_try_range:
  assumes "framing_consistent env" and "analyze_confidence_try env y sr text = Inr score"
  shows "\<exists>r. score = Num r \<and> 0 \<le> r \<and> r \<le> 10"
proof -
  from assms(2) obtain envelope where envelope: "rms env y = Inr envelope"
    by (auto simp: analyze_confidence_try_def split: sum.splits)
  have "envelope \<noteq> []"
    using assms(1) envelope unfolding framing_consistent_def by blast
  then obtain dev where dev: "np_std envelope = Num dev" using np_std_Num by blast
  let ?words = "str_split (str_lower text)"
  show ?thesis
  proof (cases "?words = []")
    case True
    obtain a where a: "normalize_score (Num dev) 0 (1 / 10) True = Inr (Num a)" "0 \<le> a" "a \<le> 10"
      using normalize_score_range [of 0 "1 / 10" dev True] by auto
    have "analyze_confidence_try env y sr text = Inr (Num a)"
      using envelope dev a(1) True by (simp add: analyze_confidence_try_def)
    with assms(2) have "score = Num a" by simp
    with a(2,3) show ?thesis by blast
  next
    case False
    let ?ratio = "real (filler_count ?words) / (real (length ?words) / 100)"
    obtain a b where ab: "normalize_score (Num dev) 0 (1 / 10) True = Inr (Num a)"
      "normalize_score (Num ?ratio) 0 10 True = Inr (Num b)"
      "py_div (py_add (Num a) (Num b)) (Num 2) = Inr (Num ((a + b) / 2))"
      "0 \<le> (a + b) / 2 \<and> (a + b) / 2 \<le> 10"
      using normalize_score_mean_range [of 0 "1 / 10" 0 10 dev True ?ratio True] by auto
    have "analyze_confidence_try env y sr text = Inr (Num ((a + b) / 2))"
      unfolding analyze_confidence_try_def Let_def
      using envelope dev False ab(1,2,3) filler_ratio_Num [OF False]
      by (simp del: py_div.simps py_add.simps)
    with assms(2) have "score = Num ((a + b) / 2)" by simp
    with ab(4) show ?thesis by blast
  qed
qed

lemma analyze_confidence_range:
  assumes "framing_consistent env" and "analyze_confidence env y sr text = Inr score"
  shows "\<exists>r. score = Num r \<and> 0 \<le> r \<and> r \<le> 10"
proof (cases "analyze_confidence_try env y sr text")
  case (Inl e)
  with assms(2) have "score = Num 0" by (simp add: analyze_confidence_def)
  then show ?thesis by simp
next
  case (Inr s)
  with assms(2) have "score = s" by (simp add: analyze_confidence_def)
  with Inr analyze_confidence_try_range [OF assms(1)] show ?thesis by blast
qed

text \<open>
  Why the framing matters: on an empty RMS envelope \<^verbatim>\<open>np.std\<close> is NaN, and the
  normalizer hands NaN on.
\<close>

lemma analyze_confidence_empty_envelope:
  assumes "rms env y = Inr []" and "str_split (str_lower transcribed_text) = []"
  shows "analyze_confidence env y sr transcribed_text = Inr NaN"
  using assms
  by (simp add: analyze_confidence_def analyze_confidence_try_def np_std_def normalize_score_NaN)

lemma pitch_range_returns:
  "\<exists>range. (if length pitch_vals > 1 then np_ptp pitch_vals else Inr 0) = Inr range"
  by (cases pitch_vals) simp_all

lemma analyze_energy_engagement_try_range:
  assumes "analyze_energy_engagement_try env y sr = Inr score"
  shows "\<exists>r. score = Num r \<and> 0 \<le> r \<and> r \<le> 10"
proof -
  from assms obtain track where track: "piptrack env y sr = Inr track"
    by (auto simp: analyze_energy_engagement_try_def split: sum.splits)
  from assms track obtain duration where duration: "get_duration env y sr = Inr duration"
    by (auto simp: analyze_energy_engagement_try_def Let_def split: sum.splits)
  show ?thesis
  proof (cases "duration = 0")
    case True
    with assms track duration have "score = Num 0"
      by (simp add: analyze_energy_engagement_try_def Let_def)
    then show ?thesis by simp
  next
    case False
    obtain range where range:
      "(if length (positive_pitches track) > 1 then np_ptp (positive_pitches track) else Inr 0)
         = Inr range"
      using pitch_range_returns by blast
    obtain a where a: "normalize_score (Num range) 50 250 False = Inr (Num a)"
      using normalize_score_range [of 50 250 range False] by auto
    from assms track duration False range a obtain onsets
      where onsets: "onset_detect env y sr = Inr onsets"
      by (auto simp: analyze_energy_engagement_try_def Let_def split: sum.splits)
    let ?rate = "real (length onsets) / duration"
    have rate: "py_div (Num (real (length onsets))) (Num duration) = Inr (Num ?rate)"
      using False by simp
    obtain a' b where ab: "normalize_score (Num range) 50 250 False = Inr (Num a')"
      "normalize_score (Num ?rate) 2 6 False = Inr (Num b)"
      "py_div (py_add (Num a') (Num b)) (Num 2) = Inr (Num ((a' + b) / 2))"
      "0 \<le> (a' + b) / 2 \<and> (a' + b) / 2 \<le> 10"
      using normalize_score_mean_range [of 50 250 2 6 range False ?rate False] by auto
    have "analyze_energy_engagement_try env y sr = Inr (Num ((a' + b) / 2))"
      unfolding analyze_energy_engagement_try_def Let_def
      using track duration False range onsets rate ab(1,2,3)
      by (simp del: py_div.simps py_add.simps)
    with assms have "score = Num ((a' + b) / 2)" by simp
    with ab(4) show ?thesis by blast
  qed
qed

lemma analyze_energy_engagement_range:
  assumes "analyze_energy_engagement env y sr = Inr score"
  shows "\<exists>r. score = Num r \<and> 0 \<le> r \<and> r \<le> 10"
proof (cases "analyze_energy_engagement_try env y sr")
  case (Inl e)
  with assms have "score = Num 0" by (simp add: analyze_energy_engagement_def)
  then show ?thesis by simp
next
  case (Inr s)
  with assms have "score = s" by (simp add: analyze_energy_engagement_def)
  with Inr analyze_energy_engagement_try_range show ?thesis by blast
qed

subsection \<open>The filler count\<close>

lemma analyze_confidence_try_words:
  assumes "rms env y = Inr envelope"
    and "str_split (str_lower transcribed_text) \<noteq> []"
    and "normalize_score (np_std envelope) 0 (1 / 10) True = Inr volume"
    and "normalize_score
           (Num (real (filler_count (str_split (str_lower transcribed_text)))
                 / (real (length (str_split (str_lower transcribed_text))) / 100)))
           0 10 True = Inr filler"
  shows "analyze_confidence_try env y sr transcribed_text = py_div (py_add volume filler) (Num 2)"
  unfolding analyze_confidence_try_def Let_def
  using assms filler_ratio_Num [OF assms(2)]
  by (simp del: py_div.simps py_add.simps)

text \<open>
  Claim C9. For every transcription, the filler count the code computes is the filler
  count of the specification: the number of lower-cased, whitespace-split tokens in
  the seven-entry set. The entry \<^verbatim>\<open>you know\<close> is never a token, so the count is
  the number of tokens among the six one-word entries. And the count is what
  \<^verbatim>\<open>analyze_confidence\<close> uses: when the RMS envelope is available and the
  transcription has a word, its result is the mean of the volume-stability score and
  the filler score normalized from that count per hundred tokens.
\<close>

theorem confidence_filler_count:
  "filler_count (str_split (str_lower transcribed_text)) = spec_filler_count transcribed_text
   \<and> ''you know'' \<notin> set (spec_tokens transcribed_text)
   \<and> spec_filler_count transcribed_text =
       length (filter (\<lambda>word. word \<in> {''um'', ''uh'', ''like'', ''so'', ''actually'', ''basically''})
                 (spec_tokens transcribed_text))
   \<and> (rms env y = Inr envelope \<and> spec_tokens transcribed_text \<noteq> [] \<longrightarrow>
        (\<exists>volume filler.
            normalize_score (np_std envelope) 0 (1 / 10) True = Inr volume
          \<and> normalize_score
               (Num (real (spec_filler_count transcribed_text)
                     / (real (length (spec_tokens transcribed_text)) / 100)))
               0 10 True = Inr filler
          \<and> analyze_confidence env y sr transcribed_text =
              py_div (py_add volume filler) (Num 2)))"
proof -
  let ?words = "str_split (str_lower transcribed_text)"
  have words: "?words = spec_tokens transcribed_text" by (rule tokens_spec)
  have count: "filler_count ?words = spec_filler_count transcribed_text"
    by (simp add: filler_count_length filler_words_def spec_filler_count_def words)
  have never: "''you know'' \<notin> set (spec_tokens transcribed_text)"
    using you_know_no_token [of "str_lower transcribed_text"] by (simp add: words)
  have six: "spec_filler_count transcribed_text =
      length (filter (\<lambda>word. word \<in> {''um'', ''uh'', ''like'', ''so'', ''actually'', ''basically''})
                (spec_tokens transcribed_text))"
    unfolding spec_filler_count_def
    using never by (intro arg_cong [where f = length] filter_cong) auto
  have result: "rms env y = Inr envelope \<and> spec_tokens transcribed_text \<noteq> [] \<longrightarrow>
        (\<exists>volume filler.
            normalize_score (np_std envelope) 0 (1 / 10) True = Inr volume
          \<and> normalize_score
               (Num (real (spec_filler_count transcribed_text)
                     / (real (length (spec_tokens transcribed_text)) / 100)))
               0 10 True = Inr filler
          \<and> analyze_confidence env y sr transcribed_text =
              py_div (py_add volume filler) (Num 2))"
  proof (intro impI, elim conjE)
    assume envelope: "rms env y = Inr envelope"
      and spoken: "spec_tokens transcribed_text \<noteq> []"
    obtain volume where volume: "normalize_score (np_std envelope) 0 (1 / 10) True = Inr volume"
      using normalize_score_returns [of 0 "1 / 10"] by auto
    obtain filler where filler:
      "normalize_score
         (Num (real (spec_filler_count transcribed_text)
               / (real (length (spec_tokens transcribed_text)) / 100)))
         0 10 True = Inr filler"
      using normalize_score_returns [of 0 10] by auto
    have nonempty: "?words \<noteq> []" using spoken by (simp add: words)
    have body: "analyze_confidence_try env y sr transcribed_text =
        py_div (py_add volume filler) (Num 2)"
      by (rule analyze_confidence_try_words [OF envelope nonempty volume])
         (simp only: count filler, simp only: words filler)
    obtain h where h: "py_div (py_add volume filler) (Num 2) = Inr h"
      using py_half_returns by blast
    have "analyze_confidence env y sr transcribed_text = py_div (py_add volume filler) (Num 2)"
      unfolding analyze_confidence_def body h by simp
    with volume filler show "\<exists>volume filler.
            normalize_score (np_std envelope) 0 (1 / 10) True = Inr volume
          \<and> normalize_score
               (Num (real (spec_filler_count transcribed_text)
                     / (real (length (spec_tokens transcribed_text)) / 100)))
               0 10 True = Inr filler
          \<and> analyze_confidence env y sr transcribed_text =
              py_div (py_add volume filler) (Num 2)"
      by blast
  qed
  from count never six result show ?thesis by (intro conjI)
qed

lemma interview_tokens:
  "spec_tokens interview =
     [''um'', ''you'', ''know'', ''i'', ''think'', ''that'', ''we'', ''can'', ''go'', ''home'',
      ''now'', ''and'', ''rest'', ''for'', ''a'', ''long'', ''while'', ''after'', ''today'', ''ok'']"
  by code_simp

lemma interview_count: "spec_filler_count interview = 1"
  by code_simp

theorem confidence_filler_count_witness:
  "spec_tokens interview =
     [''um'', ''you'', ''know'', ''i'', ''think'', ''that'', ''we'', ''can'', ''go'', ''home'',
      ''now'', ''and'', ''rest'', ''for'', ''a'', ''long'', ''while'', ''after'', ''today'', ''ok'']
   \<and> filler_count (str_split (str_lower interview)) = 1
   \<and> analyze_confidence (studio interview voiced_track) [1 / 2, - 1 / 2] 16000 interview =
       Inr (Num (15 / 2))"
proof -
  have envelope:
    "rms (studio interview voiced_track) [1 / 2, - 1 / 2] = Inr [1 / 10, 1 / 10, 1 / 10]"
    by (simp add: studio_def voiced_track_def)
  have spoken: "spec_tokens interview \<noteq> []" by (simp add: interview_tokens)
  have volume: "normalize_score (np_std [1 / 10, 1 / 10, 1 / 10]) 0 (1 / 10) True = Inr (Num 10)"
    by (simp add: np_std_def normalize_score_Num)
  have filler: "normalize_score
       (Num (real (spec_filler_count interview) / (real (length (spec_tokens interview)) / 100)))
       0 10 True = Inr (Num 5)"
    by (simp add: interview_count interview_tokens normalize_score_Num)
  show ?thesis
    using envelope spoken volume filler interview_tokens interview_count
      confidence_filler_count [where transcribed_text = interview
        and env = "studio interview voiced_track" and y = "[1 / 2, - 1 / 2]"
        and envelope = "[1 / 10, 1 / 10, 1 / 10]" and sr = 16000]
    by auto
qed

section \<open>Properties of the score composer\<close>

lemma placeholder_numeric:
  "\<exists>m. py_div (py_add c k) (Num 2) = Inr m
       \<and> placeholder_professionalism_score (PyNum c) (PyNum k) = Inr (PyNum m)"
proof -
  obtain m where "py_div (py_add c k) (Num 2) = Inr m" using py_half_returns by blast
  then show ?thesis by (simp add: placeholder_professionalism_score_def)
qed

text \<open>
  Claim C5 as stated fails: an input that is present but not numeric is not mapped to
  the status string. With the string \<^verbatim>\<open>n/a\<close> for the clarity the addition raises
  TypeError.
\<close>

theorem professionalism_string_input:
  "isl (placeholder_professionalism_score (PyStr ''n/a'') (PyNum (Num 8)))
   \<and> placeholder_professionalism_score (PyStr ''n/a'') (PyNum (Num 8)) \<noteq>
     Inr (PyStr ''Not Calculated'')"
  by (simp add: placeholder_professionalism_score_def)

text \<open>
  Claim C5, amended. The professionalism score is the arithmetic mean of the two inputs
  whenever both are numeric; it is the status string \<^verbatim>\<open>Not Calculated\<close> whenever
  one of them is \<^verbatim>\<open>None\<close>; and it is a number only when both inputs are
  numbers, so a missing or non-numeric input never yields a numeric default.
\<close>

theorem professionalism_score_cases:
  "placeholder_professionalism_score (PyNum (Num a)) (PyNum (Num b)) =
     Inr (PyNum (Num ((a + b) / 2)))
   \<and> (\<exists>m. py_div (py_add c k) (Num 2) = Inr m
          \<and> placeholder_professionalism_score (PyNum c) (PyNum k) = Inr (PyNum m))
   \<and> (clarity = PyNone \<or> confidence = PyNone \<longrightarrow>
        placeholder_professionalism_score clarity confidence = Inr (PyStr ''Not Calculated''))
   \<and> (\<forall>x. placeholder_professionalism_score clarity confidence = Inr (PyNum x) \<longrightarrow>
          (\<exists>c' k'. clarity = PyNum c' \<and> confidence = PyNum k'))"
proof -
  have mean: "placeholder_professionalism_score (PyNum (Num a)) (PyNum (Num b)) =
     Inr (PyNum (Num ((a + b) / 2)))"
    by (simp add: placeholder_professionalism_score_def)
  have missing: "clarity = PyNone \<or> confidence = PyNone \<longrightarrow>
        placeholder_professionalism_score clarity confidence = Inr (PyStr ''Not Calculated'')"
    by (simp add: placeholder_professionalism_score_def)
  have numeric_only: "\<forall>x. placeholder_professionalism_score clarity confidence = Inr (PyNum x) \<longrightarrow>
          (\<exists>c' k'. clarity = PyNum c' \<and> confidence = PyNum k')"
    by (cases clarity; cases confidence)
       (simp_all add: placeholder_professionalism_score_def)
  show ?thesis using mean placeholder_numeric [of c k] missing numeric_only by blast
qed

theorem professionalism_score_cases_witness:
  "placeholder_professionalism_score (PyNum (Num 6)) PyNone = Inr (PyStr ''Not Calculated'')
   \<and> placeholder_professionalism_score (PyNum (Num 6)) (PyNum (Num 9)) = Inr (PyNum (Num (15 / 2)))"
  using professionalism_score_cases [of 6 9 "Num 6" "Num 9" "PyNum (Num 6)" PyNone] by simp

section \<open>Properties of the orchestrator\<close>

lemma np_max_abs:
  assumes "y \<noteq> []"
  shows "np_max (np_abs y) = Inr (Max (abs ` set y))"
proof -
  obtain x xs where y: "y = x # xs" using assms by (cases y) auto
  have "fold max (map abs xs) \<bar>x\<bar> = Max (set (\<bar>x\<bar> # map abs xs))"
    by (rule Max.set_eq_fold [symmetric])
  then show ?thesis by (simp add: y np_abs_def)
qed

text \<open>
  A waveform with at least one sample, all samples below 0.001 in absolute value: the
  run returns the fixed silence report and enters no stage after the silence check.
\<close>

lemma silent_waveform_result:
  assumes "load_audio env audio_path = Inr y"
    and "y \<noteq> []"
    and "Max (abs ` set y) < 1 / 1000"
  shows "run_full_analysis env audio_path =
           ([Loading, SilenceCheck],
            Inr [(''Clarity Score'', Number (Num 0)),
                 (''Confidence Score'', Number (Num 0)),
                 (''Energy & Engagement Score'', Number (Num 0)),
                 (''Professionalism Score'', Number (Num 0)),
                 (''Mood Analysis'', Text ''Not Implemented''),
                 (''Transcription'', Text ''Audio is silent or contains no speech.'')])"
  using assms by (simp add: run_full_analysis_def np_max_abs silence_report_def)

lemma silent_waveform_result_example:
  "run_full_analysis (studio ''hello'' voiced_track) ''silence.wav'' =
     ([Loading, SilenceCheck],
      Inr [(''Clarity Score'', Number (Num 0)),
           (''Confidence Score'', Number (Num 0)),
           (''Energy & Engagement Score'', Number (Num 0)),
           (''Professionalism Score'', Number (Num 0)),
           (''Mood Analysis'', Text ''Not Implemented''),
           (''Transcription'', Text ''Audio is silent or contains no speech.'')])"
proof -
  have loaded: "load_audio (studio ''hello'' voiced_track) ''silence.wav'' =
      Inr [0, 1 / 10000, - 1 / 10000]"
    by (simp add: studio_def)
  have nonempty: "[0, 1 / 10000, - 1 / 10000] \<noteq> ([] :: waveform)" by simp
  have peak: "Max (abs ` set [0, 1 / 10000, - 1 / 10000 :: real]) < 1 / 1000" by simp
  show ?thesis by (rule silent_waveform_result [OF loaded nonempty peak])
qed

text \<open>
  Claim C3. When the loading stage raises, \<^verbatim>\<open>run_full_analysis\<close> returns the dict
  whose single key is \<^verbatim>\<open>error\<close>, with the text \<^verbatim>\<open>Could not load audio file: \<close>
  followed by the exception's text, and enters no later stage.
\<close>

theorem load_failure_result:
  assumes "load_audio env audio_path = Inl e"
  shows "run_full_analysis env audio_path =
           ([Loading], Inr [(''error'', Text (''Could not load audio file: '' @ str_exn e))])"
  using assms by (simp add: run_full_analysis_def)

theorem load_failure_result_witness:
  "run_full_analysis (studio ''hello'' voiced_track) ''notes.txt'' =
     ([Loading], Inr [(''error'', Text ''Could not load audio file: Decoding failed'')])"
proof -
  have failed: "load_audio (studio ''hello'' voiced_track) ''notes.txt'' =
      Inl (LibraryError ''Decoding failed'')"
    by (simp add: studio_def)
  show ?thesis using load_failure_result [OF failed] by simp
qed

text \<open>
  A waveform with no sample: \<^verbatim>\<open>np.max\<close> of the empty array raises, outside the
  \<^verbatim>\<open>try\<close> block, and the exception leaves \<^verbatim>\<open>run_full_analysis\<close>.
\<close>

lemma empty_waveform_raises:
  assumes "load_audio env audio_path = Inr []"
  shows "run_full_analysis env audio_path =
           ([Loading, SilenceCheck],
            Inl (ValueError
              ''zero-size array to reduction operation maximum which has no identity''))"
  using assms by (simp add: run_full_analysis_def np_abs_def)

text \<open>
  Claim C2. A waveform that loads and whose peak absolute amplitude is below 0.001 is
  to give the fixed silence report "regardless of waveform length", and the comment on
  the check reads "Handle silent audio arrays". For the silent array of length zero the
  code does not return the report: \<^verbatim>\<open>run_full_analysis\<close> raises ValueError.
\<close>

theorem empty_waveform_run:
  "run_full_analysis (studio ''hello'' voiced_track) ''empty.wav'' =
     ([Loading, SilenceCheck],
      Inl (ValueError ''zero-size array to reduction operation maximum which has no identity''))"
  by (rule empty_waveform_raises) (simp add: studio_def)

lemma analyze_speech_report:
  assumes "analyze_speech env y sr = (stages, Inr report)"
  shows "\<exists>spoken c k g m.
           transcribe env y = Inr spoken
         \<and> analyze_clarity env y sr = Inr c
         \<and> analyze_confidence env y sr spoken = Inr k
         \<and> analyze_energy_engagement env y sr = Inr g
         \<and> py_div (py_add c k) (Num 2) = Inr m
         \<and> placeholder_professionalism_score (PyNum c) (PyNum k) = Inr (PyNum m)
         \<and> stages = [Transcribing, Extracting, Composing]
         \<and> report = [(''Clarity Score'', Number c),
                      (''Confidence Score'', Number k),
                      (''Energy & Engagement Score'', Number g),
                      (''Professionalism Score'', Number m),
                      (''Mood Analysis'', Text ''Not Implemented''),
                      (''Transcription'', Text spoken)]"
proof -
  from assms obtain spoken where spoken: "transcribe env y = Inr spoken"
    by (auto simp: analyze_speech_def split: sum.splits)
  obtain c where c: "analyze_clarity env y sr = Inr c"
    using analyze_clarity_returns by blast
  obtain k where k: "analyze_confidence env y sr spoken = Inr k"
    using analyze_confidence_returns by blast
  obtain g where g: "analyze_energy_engagement env y sr = Inr g"
    using analyze_energy_engagement_returns by blast
  obtain m where m: "py_div (py_add c k) (Num 2) = Inr m"
    "placeholder_professionalism_score (PyNum c) (PyNum k) = Inr (PyNum m)"
    using placeholder_numeric by blast
  have "analyze_speech env y sr =
      ([Transcribing, Extracting, Composing],
       Inr [(''Clarity Score'', Number c),
            (''Confidence Score'', Number k),
            (''Energy & Engagement Score'', Number g),
            (''Professionalism Score'', Number m),
            (''Mood Analysis'', Text ''Not Implemented''),
            (''Transcription'', Text spoken)])"
    by (simp add: analyze_speech_def spoken c k g m(2) placeholder_mood_analysis_def)
  with assms spoken c k g m show ?thesis by auto
qed

lemma run_full_analysis_cases:
  assumes "run_full_analysis env audio_path = (stages, Inr report)"
  shows "(\<exists>e. load_audio env audio_path = Inl e \<and> stages = [Loading]
            \<and> report = [(''error'', Text (''Could not load audio file: '' @ str_exn e))])
       \<or> (\<exists>y. load_audio env audio_path = Inr y \<and> stages = [Loading, SilenceCheck]
            \<and> report = silence_report)
       \<or> (\<exists>y rest. load_audio env audio_path = Inr y \<and> stages = Loading # SilenceCheck # rest
            \<and> analyze_speech env y 16000 = (rest, Inr report))"
  using assms
  by (auto simp: run_full_analysis_def Let_def split: sum.splits if_splits prod.splits)

text \<open>A run of the whole pipeline on the example capabilities.\<close>

lemma studio_talk:
  "run_full_analysis (studio '' um hello there'' voiced_track) ''talk.wav'' =
     ([Loading, SilenceCheck, Transcribing, Extracting, Composing],
      Inr [(''Clarity Score'', Number (Num 5)),
           (''Confidence Score'', Number (Num 5)),
           (''Energy & Engagement Score'', Number (Num 4)),
           (''Professionalism Score'', Number (Num 5)),
           (''Mood Analysis'', Text ''Not Implemented''),
           (''Transcription'', Text '' um hello there'')])"
  by (simp add: run_full_analysis_def studio_def voiced_track_def np_abs_def analyze_speech_def
      analyze_clarity_def analyze_clarity_try_def np_mean_def normalize_score_def py_min_def
      py_max_def analyze_confidence_def analyze_confidence_try_def np_std_def str_split_def
      str_lower_def lower_char_def isspace_def filler_count_def filler_words_def
      analyze_energy_engagement_def analyze_energy_engagement_try_def positive_pitches_def
      placeholder_professionalism_score_def placeholder_mood_analysis_def)

lemma studio_framing: "framing_consistent (studio transcription voiced_track)"
  by (auto simp: framing_consistent_def studio_def voiced_track_def)

text \<open>
  Claim C10. In every result of a run that went past the silence check and returned,
  the two extractors returned floats, \<^verbatim>\<open>placeholder_professionalism_score\<close> took
  its numeric branch, and the field \<^verbatim>\<open>Professionalism Score\<close> is that number,
  never the string \<^verbatim>\<open>Not Calculated\<close>.
\<close>

theorem professionalism_always_numeric:
  assumes "run_full_analysis env audio_path = (stages, Inr report)"
    and "Transcribing \<in> set stages"
  shows "\<exists>y spoken c k m.
           load_audio env audio_path = Inr y
         \<and> transcribe env y = Inr spoken
         \<and> analyze_clarity env y 16000 = Inr c
         \<and> analyze_confidence env y 16000 spoken = Inr k
         \<and> placeholder_professionalism_score (PyNum c) (PyNum k) = Inr (PyNum m)
         \<and> map_of report ''Professionalism Score'' = Some (Number m)
         \<and> map_of report ''Professionalism Score'' \<noteq> Some (Text ''Not Calculated'')"
proof -
  from run_full_analysis_cases [OF assms(1)] assms(2)
  obtain y rest where y: "load_audio env audio_path = Inr y"
    and rest: "analyze_speech env y 16000 = (rest, Inr report)"
    by auto
  from analyze_speech_report [OF rest] obtain spoken c k g m where
    parts: "transcribe env y = Inr spoken" "analyze_clarity env y 16000 = Inr c"
      "analyze_confidence env y 16000 spoken = Inr k"
      "placeholder_professionalism_score (PyNum c) (PyNum k) = Inr (PyNum m)"
    and report: "report = [(''Clarity Score'', Number c),
                      (''Confidence Score'', Number k),
                      (''Energy & Engagement Score'', Number g),
                      (''Professionalism Score'', Number m),
                      (''Mood Analysis'', Text ''Not Implemented''),
                      (''Transcription'', Text spoken)]"
    by blast
  have "map_of report ''Professionalism Score'' = Some (Number m)"
    unfolding report by simp
  with y parts show ?thesis by auto
qed

theorem professionalism_always_numeric_witness:
  "run_full_analysis (studio '' um hello there'' voiced_track) ''talk.wav'' =
     ([Loading, SilenceCheck, Transcribing, Extracting, Composing],
      Inr [(''Clarity Score'', Number (Num 5)),
           (''Confidence Score'', Number (Num 5)),
           (''Energy & Engagement Score'', Number (Num 4)),
           (''Professionalism Score'', Number (Num 5)),
           (''Mood Analysis'', Text ''Not Implemented''),
           (''Transcription'', Text '' um hello there'')])
   \<and> Transcribing \<in> set [Loading, SilenceCheck, Transcribing, Extracting, Composing]
   \<and> map_of [(''Clarity Score'', Number (Num 5)),
              (''Confidence Score'', Number (Num 5)),
              (''Energy & Engagement Score'', Number (Num 4)),
              (''Professionalism Score'', Number (Num 5)),
              (''Mood Analysis'', Text ''Not Implemented''),
              (''Transcription'', Text '' um hello there'')] ''Professionalism Score''
       \<noteq> Some (Text ''Not Calculated'')"
proof -
  have entered: "Transcribing \<in> set [Loading, SilenceCheck, Transcribing, Extracting, Composing]"
    by simp
  show ?thesis
    using studio_talk entered professionalism_always_numeric [OF studio_talk entered] by blast
qed

text \<open>
  Claim C4. Every numeric field of a returned report lies in \<open>[0, 10]\<close>, given
  that the RMS envelope and the pitch track are framed alike.
\<close>

theorem report_scores_in_range:
  assumes "framing_consistent env"
    and "run_full_analysis env audio_path = (stages, Inr report)"
    and "(name, Number x) \<in> set report"
  shows "\<exists>r. x = Num r \<and> 0 \<le> r \<and> r \<le> 10"
proof -
  consider
    (failed) e where "report = [(''error'', Text (''Could not load audio file: '' @ str_exn e))]"
  | (silent) "report = silence_report"
  | (speech) y rest where "analyze_speech env y 16000 = (rest, Inr report)"
    using run_full_analysis_cases [OF assms(2)] by blast
  then show ?thesis
  proof cases
    case failed
    with assms(3) show ?thesis by simp
  next
    case silent
    with assms(3) have "x = Num 0" by (auto simp: silence_report_def)
    then show ?thesis by simp
  next
    case speech
    from analyze_speech_report [OF speech] obtain spoken c k g m where
      c: "analyze_clarity env y 16000 = Inr c"
      and k: "analyze_confidence env y 16000 spoken = Inr k"
      and g: "analyze_energy_engagement env y 16000 = Inr g"
      and m: "py_div (py_add c k) (Num 2) = Inr m"
      and report: "report = [(''Clarity Score'', Number c),
                      (''Confidence Score'', Number k),
                      (''Energy & Engagement Score'', Number g),
                      (''Professionalism Score'', Number m),
                      (''Mood Analysis'', Text ''Not Implemented''),
                      (''Transcription'', Text spoken)]"
      by blast
    obtain rc where rc: "c = Num rc" "0 \<le> rc" "rc \<le> 10"
      using analyze_clarity_range [OF assms(1) c] by blast
    obtain rk where rk: "k = Num rk" "0 \<le> rk" "rk \<le> 10"
      using analyze_confidence_range [OF assms(1) k] by blast
    obtain rg where rg: "g = Num rg" "0 \<le> rg" "rg \<le> 10"
      using analyze_energy_engagement_range [OF g] by blast
    have rm: "m = Num ((rc + rk) / 2)" using m rc(1) rk(1) by simp
    have "x = c \<or> x = k \<or> x = g \<or> x = m" using assms(3) unfolding report by auto
    then show ?thesis using rc rk rg rm mean_in_range [of rc rk] by blast
  qed
qed

theorem report_scores_in_range_witness:
  "framing_consistent (studio '' um hello there'' voiced_track)
   \<and> run_full_analysis (studio '' um hello there'' voiced_track) ''talk.wav'' =
     ([Loading, SilenceCheck, Transcribing, Extracting, Composing],
      Inr [(''Clarity Score'', Number (Num 5)),
           (''Confidence Score'', Number (Num 5)),
           (''Energy & Engagement Score'', Number (Num 4)),
           (''Professionalism Score'', Number (Num 5)),
           (''Mood Analysis'', Text ''Not Implemented''),
           (''Transcription'', Text '' um hello there'')])
   \<and> (\<exists>r. Num 4 = Num r \<and> 0 \<le> r \<and> r \<le> 10)"
proof -
  have listed: "(''Energy & Engagement Score'', Number (Num 4)) \<in>
      set [(''Clarity Score'', Number (Num 5)),
           (''Confidence Score'', Number (Num 5)),
           (''Energy & Engagement Score'', Number (Num 4)),
           (''Professionalism Score'', Number (Num 5)),
           (''Mood Analysis'', Text ''Not Implemented''),
           (''Transcription'', Text '' um hello there'')]"
    by simp
  show ?thesis
    using studio_framing studio_talk
      report_scores_in_range [OF studio_framing studio_talk listed]
    by simp
qed

end
